theory Spec2Isabelle
  imports Main "HOL-Library.Char_ord" "HOL-Library.List_Lexorder" "HOL-Library.Multiset"
begin

section \<open>Python values handled by the HTTP layer (src/tranql/api.py)\<close>

text \<open>
  The value of an exception's \<^verbatim>\<open>details\<close> attribute. The handler observes it in two ways
  only: its truth value (\<^verbatim>\<open>if e.details\<close>) and its \<^verbatim>\<open>str()\<close>. The two are independent
  in Python (\<^verbatim>\<open>0\<close> is false and prints as \<^verbatim>\<open>0\<close>), so both are kept.
\<close>

record details =
  details_truth :: bool
  details_str :: string

text \<open>
  Exception instances. \<open>Exception m\<close> is an instance of \<^verbatim>\<open>Exception\<close> or of any subclass of
  it other than \<^verbatim>\<open>TranQLException\<close>, with \<^verbatim>\<open>str(e) = m\<close>; \<open>TranQLException m d\<close> is an
  instance of \<^verbatim>\<open>tranql.exception.TranQLException\<close> with \<^verbatim>\<open>str(e) = m\<close> and
  \<^verbatim>\<open>e.details = d\<close>.
\<close>

datatype pyexc =
    Exception string
  | TranQLException string details

text \<open>
  The values that reach the handlers: JSON-like data plus exception objects. A dictionary
  is an association list in insertion order, with string keys. Floating-point numbers are
  left out: no handler looks inside a number.
\<close>

datatype pyval =
    PyNone
  | PyBool bool
  | PyInt int
  | PyStr string
  | PyList "pyval list"
  | PyDict "(string \<times> pyval) list"
  | PyExc pyexc

type_synonym pydict = "(string \<times> pyval) list"

fun py_str_exc :: "pyexc \<Rightarrow> string" where
  "py_str_exc (Exception m) = m"
| "py_str_exc (TranQLException m d) = m"

fun type_name :: "pyval \<Rightarrow> string" where
  "type_name PyNone = ''NoneType''"
| "type_name (PyBool b) = ''bool''"
| "type_name (PyInt i) = ''int''"
| "type_name (PyStr s) = ''str''"
| "type_name (PyList xs) = ''list''"
| "type_name (PyDict d) = ''dict''"
| "type_name (PyExc (Exception m)) = ''Exception''"
| "type_name (PyExc (TranQLException m d)) = ''TranQLException''"

text \<open>A name between apostrophes, as Python's error messages print it.\<close>

definition quote :: "string \<Rightarrow> string" where
  "quote s = [CHR 0x27] @ s @ [CHR 0x27]"

subsection \<open>Dictionary operations\<close>

definition dict_get :: "pydict \<Rightarrow> string \<Rightarrow> pyval option" where
  "dict_get d k = map_of d k"

text \<open>\<^verbatim>\<open>d.get(k, default)\<close>\<close>

definition dict_get_default :: "pydict \<Rightarrow> string \<Rightarrow> pyval \<Rightarrow> pyval" where
  "dict_get_default d k v = (case map_of d k of Some x \<Rightarrow> x | None \<Rightarrow> v)"

text \<open>\<^verbatim>\<open>d[k] = v\<close>: an existing key keeps its position, a new key goes last.\<close>

fun dict_set :: "pydict \<Rightarrow> string \<Rightarrow> pyval \<Rightarrow> pydict" where
  "dict_set [] k v = [(k, v)]"
| "dict_set (p # ps) k v = (if fst p = k then (k, v) # ps else p # dict_set ps k v)"

definition dict_keys :: "pydict \<Rightarrow> string list" where
  "dict_keys d = map fst d"

text \<open>
  \<^verbatim>\<open>d.update(other)\<close>, and equally \<^verbatim>\<open>for key in other: d[key] = other[key]\<close>: the items of
  \<^verbatim>\<open>other\<close> are stored into \<^verbatim>\<open>d\<close> in order.
\<close>

definition dict_update :: "pydict \<Rightarrow> pydict \<Rightarrow> pydict" where
  "dict_update d other = foldl (\<lambda>d (k, v). dict_set d k v) d other"

text \<open>\<^verbatim>\<open>d[k]\<close>, raising \<^verbatim>\<open>KeyError\<close> on a missing key.\<close>

definition py_getitem :: "pydict \<Rightarrow> string \<Rightarrow> pyexc + pyval" where
  "py_getitem d k = (case map_of d k of Some x \<Rightarrow> Inr x | None \<Rightarrow> Inl (Exception (quote k)))"

subsection \<open>Built-ins that can raise\<close>

text \<open>\<^verbatim>\<open>len(v)\<close>: a \<^verbatim>\<open>TypeError\<close> on a value without a length.\<close>

fun py_len :: "pyval \<Rightarrow> pyexc + nat" where
  "py_len (PyStr s) = Inr (length s)"
| "py_len (PyList xs) = Inr (length xs)"
| "py_len (PyDict d) = Inr (length d)"
| "py_len v = Inl (Exception (''object of type '' @ quote (type_name v) @ '' has no len()''))"

text \<open>
  The items \<^verbatim>\<open>*v\<close> unpacks into a list display: the elements of a list, the characters
  of a string, the keys of a dictionary; a \<^verbatim>\<open>TypeError\<close> on anything else.
\<close>

fun py_iter :: "pyval \<Rightarrow> pyexc + pyval list" where
  "py_iter (PyList xs) = Inr xs"
| "py_iter (PyStr s) = Inr (map (\<lambda>c. PyStr [c]) s)"
| "py_iter (PyDict d) = Inr (map PyStr (dict_keys d))"
| "py_iter v = Inl (Exception (quote (type_name v) @ '' object is not iterable''))"

text \<open>
  \<^verbatim>\<open>v.update(other)\<close> with \<^verbatim>\<open>other\<close> a dictionary: an \<^verbatim>\<open>AttributeError\<close> unless \<^verbatim>\<open>v\<close> is a
  dictionary.
\<close>

fun py_update :: "pyval \<Rightarrow> pydict \<Rightarrow> pyexc + pyval" where
  "py_update (PyDict d) other = Inr (PyDict (dict_update d other))"
| "py_update v other =
     Inl (Exception (quote (type_name v) @ '' object has no attribute '' @ quote ''update''))"

text \<open>
  \<^verbatim>\<open>json.dump(result, stream)\<close> raises a \<^verbatim>\<open>TypeError\<close> on a value that holds an object
  JSON cannot encode (here: an exception object). Opening the file \<^verbatim>\<open>query.out\<close> depends on
  the file system and is taken to succeed.
\<close>

fun json_serializable :: "pyval \<Rightarrow> bool" where
  "json_serializable (PyList xs) = list_all json_serializable xs"
| "json_serializable (PyDict d) = list_all (\<lambda>p. json_serializable (snd p)) d"
| "json_serializable (PyExc x) = False"
| "json_serializable PyNone = True"
| "json_serializable (PyBool b) = True"
| "json_serializable (PyInt i) = True"
| "json_serializable (PyStr s) = True"

definition json_dump :: "pyval \<Rightarrow> pyexc + pyval" where
  "json_dump result =
     (if json_serializable result then Inr result
      else Inl (Exception ''Object is not JSON serializable''))"

subsection \<open>The exception handler\<close>

text \<open>
  \<^verbatim>\<open>result["errors"]\<close> of a result dictionary. Every dictionary the handler builds has
  the key with a list under it (lemma \<open>handle_exception_shape\<close> below), so the last
  branch (a \<^verbatim>\<open>KeyError\<close> in Python) is never taken on the handler's own results.
\<close>

definition errors_of :: "pydict \<Rightarrow> pyval list" where
  "errors_of d = (case map_of d ''errors'' of Some (PyList es) \<Rightarrow> es | _ \<Rightarrow> [])"

text \<open>\<^verbatim>\<open>result["errors"].extend(xs)\<close> and \<^verbatim>\<open>result["errors"].append(x)\<close>\<close>

definition errors_extend :: "pydict \<Rightarrow> pyval list \<Rightarrow> pydict" where
  "errors_extend result xs = dict_set result ''errors'' (PyList (errors_of result @ xs))"

definition errors_append :: "pydict \<Rightarrow> pyval \<Rightarrow> pydict" where
  "errors_append result x = dict_set result ''errors'' (PyList (errors_of result @ [x]))"

text \<open>The last statements of the handler: the status is set from the warning flag.\<close>

definition set_status :: "pydict \<Rightarrow> bool \<Rightarrow> pydict" where
  "set_status result warning =
     (if warning then dict_set result ''status'' (PyStr ''Warning'')
      else dict_set result ''status'' (PyStr ''Error''))"

text \<open>
  \<^verbatim>\<open>StandardAPIResource.handle_exception(e, warning=False)\<close>. The \<^verbatim>\<open>isinstance\<close> chain is
  list, TranQLException, Exception, str; a value of any other type adds nothing. The
  recursive calls pass no warning flag, so they run with the default \<open>False\<close>.
  \<^verbatim>\<open>traceback.print_exc()\<close> only prints and is left out. The handler has no \<^verbatim>\<open>raise\<close> and
  always returns the dictionary \<^verbatim>\<open>result\<close>, so the model returns a dictionary.
\<close>

function handle_exception :: "pyval \<Rightarrow> bool \<Rightarrow> pydict" where
  "handle_exception (PyList es) warning =
     set_status
       (foldl (\<lambda>result exception.
                 errors_extend result (errors_of (handle_exception exception False)))
              [(''errors'', PyList [])] es)
       warning"
| "handle_exception (PyExc (TranQLException m d)) warning =
     set_status
       (errors_append [(''errors'', PyList [])]
          (PyDict [(''message'', PyStr m),
                   (''details'', PyStr (if details_truth d then details_str d else ''''))]))
       warning"
| "handle_exception (PyExc (Exception m)) warning =
     set_status
       (errors_append [(''errors'', PyList [])]
          (PyDict [(''message'', PyStr m), (''details'', PyStr '''')]))
       warning"
| "handle_exception (PyStr s) warning =
     set_status
       (errors_extend [(''errors'', PyList [])]
          (errors_of (handle_exception (PyExc (Exception s)) False)))
       warning"
| "handle_exception PyNone warning = set_status [(''errors'', PyList [])] warning"
| "handle_exception (PyBool b) warning = set_status [(''errors'', PyList [])] warning"
| "handle_exception (PyInt i) warning = set_status [(''errors'', PyList [])] warning"
| "handle_exception (PyDict d) warning = set_status [(''errors'', PyList [])] warning"
  by pat_completeness auto
termination
proof (relation "measure (\<lambda>(e, w). 2 * size e + (case e of PyStr s \<Rightarrow> 1 | _ \<Rightarrow> 0))")
  show "wf (measure (\<lambda>(e, w). 2 * size e + (case e of PyStr s \<Rightarrow> 1 | _ \<Rightarrow> 0)))"
    by simp
next
  fix es :: "pyval list" and x :: pyval
  assume "x \<in> set es"
  then have "size x < size_list size es"
    by (induction es) auto
  then show "((x, False), (PyList es, (warning :: bool)))
      \<in> measure (\<lambda>(e, w). 2 * size e + (case e of PyStr s \<Rightarrow> 1 | _ \<Rightarrow> 0))" for warning
    by (cases x) auto
next
  show "((PyExc (Exception s), False), (PyStr s, warning))
      \<in> measure (\<lambda>(e, w). 2 * size e + (case e of PyStr s \<Rightarrow> 1 | _ \<Rightarrow> 0))" for s warning
    by simp
qed

text \<open>
  What the claims about the handler speak of: the inputs it is meant for (a
  TranQLException, an Exception, a string, or a list of these), the individual errors
  such an input holds, in order (a string stands for \<^verbatim>\<open>Exception(s)\<close>, as the handler
  wraps it), and the keys and the message of a rendered entry.
\<close>

fun is_error :: "pyval \<Rightarrow> bool" where
  "is_error (PyExc x) = True"
| "is_error (PyStr s) = True"
| "is_error (PyList es) = list_all is_error es"
| "is_error PyNone = False"
| "is_error (PyBool b) = False"
| "is_error (PyInt i) = False"
| "is_error (PyDict d) = False"

fun error_leaves :: "pyval \<Rightarrow> pyexc list" where
  "error_leaves (PyExc x) = [x]"
| "error_leaves (PyStr s) = [Exception s]"
| "error_leaves (PyList es) = concat (map error_leaves es)"
| "error_leaves PyNone = []"
| "error_leaves (PyBool b) = []"
| "error_leaves (PyInt i) = []"
| "error_leaves (PyDict d) = []"

fun py_keys :: "pyval \<Rightarrow> string list" where
  "py_keys (PyDict d) = dict_keys d"
| "py_keys _ = []"

fun py_get :: "pyval \<Rightarrow> string \<Rightarrow> pyval option" where
  "py_get (PyDict d) k = dict_get d k"
| "py_get _ k = None"

section \<open>The endpoints\<close>

subsection \<open>TranQLQuery.post\<close>

text \<open>
  The interpreter (\<^verbatim>\<open>tranql.main.TranQL\<close>) lies outside the HTTP layer, so what
  \<^verbatim>\<open>TranQL(options).execute(query)\<close> does is a parameter of the endpoint: it either
  returns the context, of which the endpoint reads \<^verbatim>\<open>mem\<close>, or raises an \<^verbatim>\<open>Exception\<close>,
  after which the handler reads \<^verbatim>\<open>tranql.context.mem\<close> as it then stands. The returned
  context is the interpreter's own \<^verbatim>\<open>tranql.context\<close>.
\<close>

datatype exec_outcome =
    Returns pydict
  | Raises pyexc pydict

text \<open>
  The body of the \<^verbatim>\<open>try\<close> after \<^verbatim>\<open>execute\<close> has returned: every failing step is an
  exception that the \<^verbatim>\<open>except\<close> clause then catches.
\<close>

definition query_try :: "pydict \<Rightarrow> pyexc + pyval" where
  "query_try mem =
     (let result = dict_get_default mem ''result'' (PyDict []) in
      case py_len (dict_get_default mem ''requestErrors'' (PyList [])) of
        Inl ex \<Rightarrow> Inl ex
      | Inr n \<Rightarrow>
          if n > 0 then
            (case py_getitem mem ''requestErrors'' of
               Inl ex \<Rightarrow> Inl ex
             | Inr requestErrors \<Rightarrow> py_update result (handle_exception requestErrors True))
          else Inr result)"

text \<open>
  The \<^verbatim>\<open>except Exception as e\<close> clause. An exception raised here (by unpacking a
  \<^verbatim>\<open>requestErrors\<close> that is not iterable) leaves the endpoint.
\<close>

definition query_except :: "pyexc \<Rightarrow> pydict \<Rightarrow> pyexc + pyval" where
  "query_except e mem =
     (case py_iter (dict_get_default mem ''requestErrors'' (PyList [])) of
        Inl ex \<Rightarrow> Inl ex
      | Inr requestErrors \<Rightarrow>
          Inr (PyDict (handle_exception (PyList (PyExc e # requestErrors)) False)))"

text \<open>
  \<^verbatim>\<open>TranQLQuery.post\<close>, from the request's JSON body to the response, or to the exception
  that leaves the method. Logging is left out.
\<close>

definition TranQLQuery_post :: "(pydict \<Rightarrow> pyval \<Rightarrow> exec_outcome) \<Rightarrow> pyval \<Rightarrow> pyexc + pyval" where
  "TranQLQuery_post execute request_json =
     (case request_json of
        PyDict body \<Rightarrow>
          (let query = dict_get_default body ''query'' (PyStr '''');
               dynamicIdResolution = dict_get_default body ''dynamicIdResolution'' (PyBool False);
               result =
                 (case execute [(''dynamic_id_resolution'', dynamicIdResolution)] query of
                    Returns mem \<Rightarrow>
                      (case query_try mem of
                         Inr r \<Rightarrow> Inr r
                       | Inl e \<Rightarrow> query_except e mem)
                  | Raises e mem \<Rightarrow> query_except e mem)
           in case result of
                Inl ex \<Rightarrow> Inl ex
              | Inr r \<Rightarrow> json_dump r)
      | _ \<Rightarrow>
          Inl (Exception (quote (type_name request_json) @ '' object has no attribute ''
                 @ quote ''get'')))"

subsection \<open>SchemaGraph.get\<close>

text \<open>
  \<^verbatim>\<open>Schema\<close> and \<^verbatim>\<open>GraphTranslator\<close> (\<^verbatim>\<open>tranql.tranql_schema\<close>) lie outside the HTTP
  layer: the endpoint is modelled from what a finished build hands it, the message
  \<^verbatim>\<open>schemaGraph.graph_to_message()\<close> and the value of \<^verbatim>\<open>schema.loadErrors\<close>.
\<close>

definition SchemaGraph_get :: "pyval \<Rightarrow> pyval \<Rightarrow> pyexc + pyval" where
  "SchemaGraph_get schema_message loadErrors =
     (let obj = [(''schema'', schema_message)] in
      case py_len loadErrors of
        Inl ex \<Rightarrow> Inl ex
      | Inr n \<Rightarrow>
          if n > 0 then
            (let errors = handle_exception loadErrors True in
             Inr (PyDict (dict_update obj errors)))
          else Inr (PyDict obj))"

subsection \<open>ModelConceptsQuery.post and ModelRelationsQuery.post\<close>

text \<open>
  \<^verbatim>\<open>ConceptModel\<close> (\<^verbatim>\<open>tranql.concept\<close>) lies outside the HTTP layer. Of a built model
  the endpoints read two tables, each a dictionary keyed by name; building it may raise.
\<close>

record concept_model =
  by_name :: pydict
  relations_by_name :: pydict

text \<open>
  \<^verbatim>\<open>sorted\<close> on strings orders them lexicographically by character code, which is the
  order of \<open>string\<close> here.
\<close>

definition ModelConceptsQuery_post :: "pyexc + concept_model \<Rightarrow> pyval" where
  "ModelConceptsQuery_post built =
     (case built of
        Inr concept_model \<Rightarrow> PyList (map PyStr (sort (dict_keys (by_name concept_model))))
      | Inl e \<Rightarrow> PyDict (handle_exception (PyExc e) False))"

definition ModelRelationsQuery_post :: "pyexc + concept_model \<Rightarrow> pyval" where
  "ModelRelationsQuery_post built =
     (case built of
        Inr concept_model \<Rightarrow>
          PyList (map PyStr (sort (dict_keys (relations_by_name concept_model))))
      | Inl e \<Rightarrow> PyDict (handle_exception (PyExc e) False))"

subsection \<open>MergeMessages.post\<close>

text \<open>
  The interpreter's constructor \<^verbatim>\<open>TranQL\<close> and \<^verbatim>\<open>SelectStatement.merge_results\<close> lie
  outside the HTTP layer and are parameters. What the endpoint itself does is to
  read the two keys of the body, each with a default.
\<close>

definition MergeMessages_post ::
    "(pyval \<Rightarrow> 'i) \<Rightarrow> (pyval \<Rightarrow> 'i \<Rightarrow> 'r) \<Rightarrow> pyval \<Rightarrow> pyexc + 'r" where
  "MergeMessages_post TranQL merge_results request_json =
     (case request_json of
        PyDict body \<Rightarrow>
          (let options = dict_get_default body ''interpreter_options'' (PyDict []);
               messages = dict_get_default body ''messages'' (PyList []);
               tranql = TranQL options
           in Inr (merge_results messages tranql))
      | _ \<Rightarrow>
          Inl (Exception (quote (type_name request_json) @ '' object has no attribute ''
                 @ quote ''get'')))"

section \<open>The message merger\<close>

text \<open>
  Modelled from the spec: \<^verbatim>\<open>SelectStatement.merge_results\<close> (\<^verbatim>\<open>tranql.tranql_ast\<close>), which
  the merge-messages endpoint calls, is missing from the source files. The graph
  message of section 3: nodes (id, type, optional name, optional extra attributes) and
  edges (id, source node id, target node id, type, optional attributes). A merged node
  retains several types and names (section 4.4), so the type and the name of a node are
  sets: one type and at most one name for a node as a source sends it. Attributes are a
  map from attribute names to values. The nodes and the edges of a message are kept in
  first-seen order.
\<close>

record node =
  node_id :: string
  node_types :: "string set"
  node_names :: "string set"
  node_attrs :: "string \<rightharpoonup> string"

text \<open>Modelled from the spec: an edge of a graph message (section 3).\<close>

record edge =
  edge_id :: string
  source_id :: string
  target_id :: string
  edge_type :: string
  edge_attrs :: "string \<rightharpoonup> string"

text \<open>Modelled from the spec: the graph message (section 3).\<close>

record graph_message =
  nodes :: "node list"
  edges :: "edge list"

text \<open>
  Modelled from the spec: the interpreter options of section 4.3. Only
  \<^verbatim>\<open>name_based_merging\<close> changes what the merger does; name and id resolution happen
  before the merge.
\<close>

record interpreter_options =
  asynchronous :: bool
  name_based_merging :: bool
  resolve_names :: bool
  dynamic_id_resolution :: bool

text \<open>Modelled from the spec: names are compared case-insensitively (section 4.4).\<close>

definition lower_char :: "char \<Rightarrow> char" where
  "lower_char c =
     (case map_of (zip ''ABCDEFGHIJKLMNOPQRSTUVWXYZ'' ''abcdefghijklmnopqrstuvwxyz'') c of
        Some l \<Rightarrow> l
      | None \<Rightarrow> c)"

text \<open>
  Modelled from the spec: the deduplication key for nodes (section 4.4), the id by
  default, the id or the case-insensitive name when \<^verbatim>\<open>name_based_merging\<close> is set; two
  nodes are the same entity if either key matches.
\<close>

definition same_entity :: "bool \<Rightarrow> node \<Rightarrow> node \<Rightarrow> bool" where
  "same_entity name_based m n =
     (node_id m = node_id n
      \<or> (name_based \<and> map lower_char ` node_names m \<inter> map lower_char ` node_names n \<noteq> {}))"

text \<open>
  Modelled from the spec: the merged node (section 4.4) has the first-seen id, the union
  of the types and of the names, and the attributes of both, the last seen winning on a
  conflict.
\<close>

definition combine_nodes :: "node \<Rightarrow> node \<Rightarrow> node" where
  "combine_nodes m n =
     m\<lparr>node_types := node_types m \<union> node_types n,
       node_names := node_names m \<union> node_names n,
       node_attrs := node_attrs m ++ node_attrs n\<rparr>"

text \<open>
  Modelled from the spec: the deduplication key for edges (section 4.4), source id,
  target id and predicate type.
\<close>

definition edge_key :: "edge \<Rightarrow> string \<times> string \<times> string" where
  "edge_key e = (source_id e, target_id e, edge_type e)"

definition same_edge :: "edge \<Rightarrow> edge \<Rightarrow> bool" where
  "same_edge d e = (edge_key d = edge_key e)"

text \<open>
  Modelled from the spec: duplicate edges union their attributes (section 4.4), the last
  seen winning on a conflict; the spec does not say which id the merged edge has, and the
  first seen is kept, as for nodes.
\<close>

definition combine_edges :: "edge \<Rightarrow> edge \<Rightarrow> edge" where
  "combine_edges d e = d\<lparr>edge_attrs := edge_attrs d ++ edge_attrs e\<rparr>"

text \<open>
  Modelled from the spec: deduplication (section 4.4). An item is merged into the first
  item seen so far that it matches, and is a new item, placed last, when it matches none.
\<close>

fun merge_into :: "('a \<Rightarrow> 'a \<Rightarrow> bool) \<Rightarrow> ('a \<Rightarrow> 'a \<Rightarrow> 'a) \<Rightarrow> 'a list \<Rightarrow> 'a \<Rightarrow> 'a list" where
  "merge_into same combine [] x = [x]"
| "merge_into same combine (y # ys) x =
     (if same y x then combine y x # ys else y # merge_into same combine ys x)"

text \<open>
  Modelled from the spec: one node is taken in. Besides the nodes seen so far the merger
  keeps the remapping of ids: the id of a node that was merged into another one stands
  for that one's id from then on (the ``source id after remapping'' of section 4.4).
\<close>

definition absorb_node ::
    "bool \<Rightarrow> node list \<times> (string \<Rightarrow> string) \<Rightarrow> node \<Rightarrow> node list \<times> (string \<Rightarrow> string)" where
  "absorb_node name_based state n =
     (case state of (seen, remap) \<Rightarrow>
        (merge_into (same_entity name_based) combine_nodes seen n,
         (case find (\<lambda>m. same_entity name_based m n) seen of
            Some m \<Rightarrow> remap(node_id n := node_id m)
          | None \<Rightarrow> remap)))"

text \<open>Modelled from the spec: the ends of an edge after remapping (section 4.4).\<close>

definition remap_edge :: "(string \<Rightarrow> string) \<Rightarrow> edge \<Rightarrow> edge" where
  "remap_edge remap e = e\<lparr>source_id := remap (source_id e), target_id := remap (target_id e)\<rparr>"

text \<open>
  Modelled from the spec: \<^verbatim>\<open>merge(messages, options)\<close> of section 4.4. The nodes of all
  messages are taken in, in input order; then the edges of all messages, with their ends
  remapped, in input order.
\<close>

definition merge :: "interpreter_options \<Rightarrow> graph_message list \<Rightarrow> graph_message" where
  "merge options messages =
     (case foldl (absorb_node (name_based_merging options)) ([], id)
             (concat (map nodes messages)) of
        (seen, remap) \<Rightarrow>
          \<lparr>nodes = seen,
           edges = foldl (merge_into same_edge combine_edges) []
                     (map (remap_edge remap) (concat (map edges messages)))\<rparr>)"

text \<open>
  Modelled from the spec: two messages compared ``as sets, ignoring attribute-conflict
  tiebreak'' (section 8). A node is looked at through its id, its types, its names and
  the names of its attributes; an edge through its key and the names of its attributes.
  The order of the nodes and edges, the values of the attributes and the id of a merged
  edge are left out of the comparison.
\<close>

definition node_view :: "node \<Rightarrow> string \<times> string set \<times> string set \<times> string set" where
  "node_view n = (node_id n, node_types n, node_names n, dom (node_attrs n))"

definition edge_view :: "edge \<Rightarrow> (string \<times> string \<times> string) \<times> string set" where
  "edge_view e = (edge_key e, dom (edge_attrs e))"

definition same_graph :: "graph_message \<Rightarrow> graph_message \<Rightarrow> bool" where
  "same_graph g h =
     (node_view ` set (nodes g) = node_view ` set (nodes h)
      \<and> edge_view ` set (edges g) = edge_view ` set (edges h))"

text \<open>
  Modelled from the spec: the invariant of a graph message (section 3), node ids unique
  and edge ids unique within a message; and a message without duplicates under the
  merger's own keys, which for the edges is a different condition.
\<close>

definition well_formed :: "graph_message \<Rightarrow> bool" where
  "well_formed g = (distinct (map node_id (nodes g)) \<and> distinct (map edge_id (edges g)))"

definition deduplicated :: "graph_message \<Rightarrow> bool" where
  "deduplicated g = (distinct (map node_id (nodes g)) \<and> distinct (map edge_key (edges g)))"

text \<open>
  What a deduplicated list has gathered under a key: the union of an observation over
  the items with that key. Used to state what the merger keeps of its input.
\<close>

definition gathered :: "('a \<Rightarrow> 'k) \<Rightarrow> ('a \<Rightarrow> 'b set) \<Rightarrow> 'a list \<Rightarrow> 'k \<Rightarrow> 'b set" where
  "gathered key f zs k = (\<Union>z \<in> {z \<in> set zs. key z = k}. f z)"

section \<open>Properties of the exception handler\<close>

lemma map_of_dict_set: "map_of (dict_set d k v) = (map_of d)(k \<mapsto> v)"
  by (induction d) (auto simp: fun_eq_iff)

lemma errors_of_single: "errors_of [(''errors'', PyList a)] = a"
  by (simp add: errors_of_def)

lemma errors_of_first: "errors_of ((''errors'', PyList a) # rest) = a"
  by (simp add: errors_of_def)

lemma errors_extend_single:
  "errors_extend [(''errors'', PyList a)] xs = [(''errors'', PyList (a @ xs))]"
  by (simp add: errors_extend_def errors_of_def)

lemma errors_append_single:
  "errors_append [(''errors'', PyList a)] x = [(''errors'', PyList (a @ [x]))]"
  by (simp add: errors_append_def errors_of_def)

lemma foldl_errors_extend:
  "foldl (\<lambda>result exception. errors_extend result (f exception)) [(''errors'', PyList a)] es
     = [(''errors'', PyList (a @ concat (map f es)))]"
  by (induction es arbitrary: a) (simp_all add: errors_extend_single)

lemma set_status_single:
  "set_status [(''errors'', PyList a)] w =
     [(''errors'', PyList a), (''status'', PyStr (if w then ''Warning'' else ''Error''))]"
  by (simp add: set_status_def)

lemma errors_of_set_status_single:
  "errors_of (set_status [(''errors'', PyList a)] w) = a"
  by (simp add: set_status_def errors_of_def)

text \<open>The errors list of each branch of the handler, in closed form.\<close>

lemma handle_exception_errors_list:
  "errors_of (handle_exception (PyList es) w) =
     concat (map (\<lambda>e. errors_of (handle_exception e False)) es)"
  by (simp add: foldl_errors_extend errors_of_set_status_single)

lemma handle_exception_errors_exc:
  "errors_of (handle_exception (PyExc (Exception m)) w) =
     [PyDict [(''message'', PyStr m), (''details'', PyStr [])]]"
  "errors_of (handle_exception (PyExc (TranQLException m d)) w) =
     [PyDict [(''message'', PyStr m),
              (''details'', PyStr (if details_truth d then details_str d else []))]]"
  by (simp_all add: errors_append_single errors_of_set_status_single)

lemma handle_exception_errors_str:
  "errors_of (handle_exception (PyStr s) w) =
     [PyDict [(''message'', PyStr s), (''details'', PyStr [])]]"
  by (simp add: errors_append_single errors_extend_single set_status_single errors_of_first)

lemma handle_exception_errors_other:
  "errors_of (handle_exception PyNone w) = []"
  "errors_of (handle_exception (PyBool b) w) = []"
  "errors_of (handle_exception (PyInt i) w) = []"
  "errors_of (handle_exception (PyDict d) w) = []"
  by (simp_all add: errors_of_set_status_single)

lemmas handle_exception_errors =
  handle_exception_errors_list handle_exception_errors_exc handle_exception_errors_str
  handle_exception_errors_other

lemma handle_exception_shape:
  "handle_exception e w =
     [(''errors'', PyList (errors_of (handle_exception e w))),
      (''status'', PyStr (if w then ''Warning'' else ''Error''))]"
proof (cases e)
  case (PyExc x)
  then show ?thesis
    by (cases x) (simp_all add: errors_append_single set_status_single errors_of_def)
qed (simp_all add: foldl_errors_extend errors_extend_single errors_append_single
       set_status_single errors_of_def)

lemma handle_exception_errors_flag:
  "errors_of (handle_exception e w) = errors_of (handle_exception e w')"
proof (cases e)
  case (PyExc x)
  then show ?thesis by (cases x) (simp_all only: handle_exception_errors)
qed (simp_all only: handle_exception_errors)

text \<open>Every entry is a dictionary with the keys message and details, both strings.\<close>

lemma handle_exception_entries:
  "r \<in> set (errors_of (handle_exception e w)) \<Longrightarrow>
     \<exists>m d. r = PyDict [(''message'', PyStr m), (''details'', PyStr d)]"
proof (induction e w arbitrary: r rule: handle_exception.induct)
  case (1 es warning)
  from "1.prems" obtain x where x: "x \<in> set es" "r \<in> set (errors_of (handle_exception x False))"
    by (auto simp only: handle_exception_errors_list set_concat set_map)
  then show ?case by (rule "1.IH")
qed (simp_all only: handle_exception_errors, simp_all)

text \<open>One entry per error, in order, with the error's message.\<close>

lemma handle_exception_messages:
  "map (\<lambda>r. py_get r ''message'') (errors_of (handle_exception e w)) =
     map (\<lambda>x. Some (PyStr (py_str_exc x))) (error_leaves e)"
proof (induction e w rule: handle_exception.induct)
  case (1 es warning)
  have "map (\<lambda>r. py_get r ''message'') (errors_of (handle_exception (PyList es) warning)) =
        concat (map (\<lambda>e. map (\<lambda>r. py_get r ''message'') (errors_of (handle_exception e False))) es)"
    by (simp only: handle_exception_errors_list map_concat map_map o_def)
  also have "\<dots> = concat (map (\<lambda>e. map (\<lambda>x. Some (PyStr (py_str_exc x))) (error_leaves e)) es)"
    using "1.IH" by (auto intro!: arg_cong [where f = concat])
  also have "\<dots> = map (\<lambda>x. Some (PyStr (py_str_exc x))) (error_leaves (PyList es))"
    by (simp add: map_concat o_def)
  finally show ?case .
qed (simp_all only: handle_exception_errors, simp_all add: dict_get_def)

text \<open>Storing the handler's result into a dictionary, and what JSON can encode.\<close>

lemma dict_update_pair:
  "dict_update d [(k1, v1), (k2, v2)] = dict_set (dict_set d k1 v1) k2 v2"
  by (simp add: dict_update_def)

lemma list_all_dict_set:
  "list_all P d \<Longrightarrow> P (k, v) \<Longrightarrow> list_all P (dict_set d k v)"
  by (induction d) auto

lemma handle_exception_entries_serializable:
  "list_all json_serializable (errors_of (handle_exception e w))"
  unfolding list_all_iff
proof
  fix r assume "r \<in> set (errors_of (handle_exception e w))"
  then obtain m d where "r = PyDict [(''message'', PyStr m), (''details'', PyStr d)]"
    using handle_exception_entries by blast
  then show "json_serializable r" by simp
qed

lemma update_with_handler:
  "dict_update d (handle_exception e w) =
     dict_set (dict_set d ''errors'' (PyList (errors_of (handle_exception e w))))
       ''status'' (PyStr (if w then ''Warning'' else ''Error''))"
  by (subst handle_exception_shape) (simp only: dict_update_pair)

lemma update_with_handler_serializable:
  assumes "json_serializable (PyDict d)"
  shows "json_serializable (PyDict (dict_update d (handle_exception e w)))"
proof -
  have "list_all (\<lambda>p. json_serializable (snd p)) d" using assms by simp
  then have "list_all (\<lambda>p. json_serializable (snd p))
      (dict_set d ''errors'' (PyList (errors_of (handle_exception e w))))"
    by (rule list_all_dict_set) (simp add: handle_exception_entries_serializable)
  then have "list_all (\<lambda>p. json_serializable (snd p))
      (dict_set (dict_set d ''errors'' (PyList (errors_of (handle_exception e w))))
         ''status'' (PyStr (if w then ''Warning'' else ''Error'')))"
    by (rule list_all_dict_set) simp
  then show ?thesis by (simp only: update_with_handler json_serializable.simps)
qed

lemma update_with_handler_get:
  "dict_get (dict_update d (handle_exception e w)) k =
     (if k = ''status'' then Some (PyStr (if w then ''Warning'' else ''Error''))
      else if k = ''errors'' then Some (PyList (errors_of (handle_exception e w)))
      else dict_get d k)"
  by (simp add: update_with_handler dict_get_def map_of_dict_set)

lemma handler_response_serializable:
  "json_serializable (PyDict (handle_exception e w))"
  by (subst handle_exception_shape) (simp add: handle_exception_entries_serializable)

lemma error_leaves_exceptions: "error_leaves (PyList (map PyExc xs)) = xs"
  by (induction xs) simp_all

text \<open>
  From here on the handler is used through the lemmas above, not through its defining
  equations.
\<close>

declare handle_exception.simps [simp del]

section \<open>Claims about the exception handler\<close>

text \<open>
  C8. For every input value e (a TranQLException, any other Exception, a string, a list,
  or a value of another type) and either value of the warning flag, the handler returns a
  dictionary with the key errors mapped to a list and the key status, which is Warning
  when the flag is true and Error otherwise. The handler has no raising branch: the model
  is a total function into dictionaries.
\<close>

theorem handle_exception_returns_errors_and_status:
  "(\<exists>es. handle_exception e True = [(''errors'', PyList es), (''status'', PyStr ''Warning'')])
   \<and> (\<exists>es. handle_exception e False = [(''errors'', PyList es), (''status'', PyStr ''Error'')])
   \<and> dict_get (handle_exception e True) ''status'' = Some (PyStr ''Warning'')
   \<and> dict_get (handle_exception e False) ''status'' = Some (PyStr ''Error'')
   \<and> dict_get (handle_exception e w) ''errors'' = Some (PyList (errors_of (handle_exception e w)))"
proof -
  have t: "handle_exception e True =
      [(''errors'', PyList (errors_of (handle_exception e True))),
       (''status'', PyStr ''Warning'')]"
    using handle_exception_shape [of e True] by simp
  have f: "handle_exception e False =
      [(''errors'', PyList (errors_of (handle_exception e False))),
       (''status'', PyStr ''Error'')]"
    using handle_exception_shape [of e False] by simp
  have g: "dict_get (handle_exception e w) ''errors'' =
      Some (PyList (errors_of (handle_exception e w)))"
    by (subst handle_exception_shape) (simp add: dict_get_def)
  have st: "dict_get (handle_exception e True) ''status'' = Some (PyStr ''Warning'')"
    by (subst t) (simp add: dict_get_def)
  have sf: "dict_get (handle_exception e False) ''status'' = Some (PyStr ''Error'')"
    by (subst f) (simp add: dict_get_def)
  from t f g st sf show ?thesis by blast
qed

text \<open>
  C9. For every list of values es, the errors list the handler produces for es is the
  in-order concatenation of the errors lists it produces for the elements of es one by
  one (whatever the warning flag of either call); for the empty list the errors list is
  empty and the status is Error.
\<close>

theorem handle_exception_list_concat:
  "errors_of (handle_exception (PyList es) w) =
     concat (map (\<lambda>e. errors_of (handle_exception e w')) es)
   \<and> handle_exception (PyList []) False =
       [(''errors'', PyList []), (''status'', PyStr ''Error'')]"
proof
  have "errors_of (handle_exception (PyList es) w) =
        concat (map (\<lambda>e. errors_of (handle_exception e False)) es)"
    by (rule handle_exception_errors_list)
  also have "\<dots> = concat (map (\<lambda>e. errors_of (handle_exception e w')) es)"
    using handle_exception_errors_flag [of _ False w'] by simp
  finally show "errors_of (handle_exception (PyList es) w) =
     concat (map (\<lambda>e. errors_of (handle_exception e w')) es)" .
next
  show "handle_exception (PyList []) False =
       [(''errors'', PyList []), (''status'', PyStr ''Error'')]"
    by (simp add: handle_exception.simps set_status_def)
qed

text \<open>
  C3, as the spec states it: every error the handler reports is rendered as a record of
  the shape {kind, message, details}. The code writes no kind: the entry for
  \<^verbatim>\<open>Exception("boom")\<close> has the keys message and details only.
\<close>

theorem handle_exception_no_kind_counterexample:
  "map py_keys (errors_of (handle_exception (PyExc (Exception ''boom'')) False))
     = [[''message'', ''details'']]
   \<and> map (\<lambda>r. py_get r ''kind'') (errors_of (handle_exception (PyExc (Exception ''boom'')) False))
     = [None]"
  by (simp add: handle_exception.simps errors_append_def set_status_def dict_keys_def
      dict_get_def errors_of_def)

text \<open>
  C3, amended: for every input that is a TranQLException, a plain Exception, a string, or
  a list of these, the handler returns (it does not raise) a dictionary whose errors list
  holds one entry per error of the input, in order; every entry is a record with exactly
  the keys message and details, both strings, and its message is the error's \<^verbatim>\<open>str()\<close>.
\<close>

theorem handle_exception_uniform_entries:
  assumes "is_error e"
  shows "(\<forall>r \<in> set (errors_of (handle_exception e w)).
            py_keys r = [''message'', ''details'']
            \<and> (\<exists>m d. r = PyDict [(''message'', PyStr m), (''details'', PyStr d)]))
         \<and> map (\<lambda>r. py_get r ''message'') (errors_of (handle_exception e w)) =
             map (\<lambda>x. Some (PyStr (py_str_exc x))) (error_leaves e)
         \<and> dict_get (handle_exception e w) ''errors'' =
             Some (PyList (errors_of (handle_exception e w)))"
proof (intro conjI ballI)
  fix r assume r: "r \<in> set (errors_of (handle_exception e w))"
  then obtain m d where "r = PyDict [(''message'', PyStr m), (''details'', PyStr d)]"
    using handle_exception_entries by blast
  then show "py_keys r = [''message'', ''details'']"
    and "\<exists>m d. r = PyDict [(''message'', PyStr m), (''details'', PyStr d)]"
    by (simp_all add: dict_keys_def)
next
  show "map (\<lambda>r. py_get r ''message'') (errors_of (handle_exception e w)) =
        map (\<lambda>x. Some (PyStr (py_str_exc x))) (error_leaves e)"
    by (rule handle_exception_messages)
next
  show "dict_get (handle_exception e w) ''errors'' =
        Some (PyList (errors_of (handle_exception e w)))"
    by (subst handle_exception_shape) (simp add: dict_get_def)
qed

theorem handle_exception_uniform_entries_witness:
  "is_error (PyList [PyStr ''no route'',
       PyExc (TranQLException ''bad'' \<lparr>details_truth = True, details_str = ''why''\<rparr>)])
   \<and> errors_of (handle_exception (PyList [PyStr ''no route'',
       PyExc (TranQLException ''bad'' \<lparr>details_truth = True, details_str = ''why''\<rparr>)]) True)
     = [PyDict [(''message'', PyStr ''no route''), (''details'', PyStr [])],
        PyDict [(''message'', PyStr ''bad''), (''details'', PyStr ''why'')]]
   \<and> map (\<lambda>r. py_get r ''message'') (errors_of (handle_exception (PyList [PyStr ''no route'',
       PyExc (TranQLException ''bad'' \<lparr>details_truth = True, details_str = ''why''\<rparr>)]) True))
     = [Some (PyStr ''no route''), Some (PyStr ''bad'')]"
proof -
  let ?e = "PyList [PyStr ''no route'',
       PyExc (TranQLException ''bad'' \<lparr>details_truth = True, details_str = ''why''\<rparr>)]"
  have h: "is_error ?e" by simp
  have v: "errors_of (handle_exception ?e True)
     = [PyDict [(''message'', PyStr ''no route''), (''details'', PyStr [])],
        PyDict [(''message'', PyStr ''bad''), (''details'', PyStr ''why'')]]"
    by (simp add: handle_exception.simps errors_append_single errors_extend_single
        set_status_single errors_of_first)
  from handle_exception_uniform_entries [OF h, of True] h v show ?thesis
    by simp
qed

section \<open>Claims about the endpoints\<close>

text \<open>
  C1. Whenever the interpreter's execute returns, the context holds a non-empty list of
  request errors and its result is a dictionary that JSON can encode (a graph message),
  the query endpoint returns a response with status Warning and an errors list holding one
  entry per accumulated request error, in order, with that error's message; every other
  key of the partial result is in the response unchanged. The result defaults to the
  empty dictionary when the context holds none. For a list of exception objects the
  errors it holds are its elements (lemma \<open>error_leaves_exceptions\<close>).
\<close>

theorem query_warning_response:
  assumes exec: "execute [(''dynamic_id_resolution'',
                     dict_get_default body ''dynamicIdResolution'' (PyBool False))]
                   (dict_get_default body ''query'' (PyStr [])) = Returns mem"
    and errs: "dict_get mem ''requestErrors'' = Some (PyList errs)" "errs \<noteq> []"
    and res: "dict_get_default mem ''result'' (PyDict []) = PyDict res"
      "json_serializable (PyDict res)"
  shows "\<exists>resp ents.
           TranQLQuery_post execute (PyDict body) = Inr (PyDict resp)
         \<and> dict_get resp ''status'' = Some (PyStr ''Warning'')
         \<and> dict_get resp ''errors'' = Some (PyList ents)
         \<and> map (\<lambda>r. py_get r ''message'') ents =
             map (\<lambda>x. Some (PyStr (py_str_exc x))) (error_leaves (PyList errs))
         \<and> (\<forall>k. k \<noteq> ''errors'' \<and> k \<noteq> ''status'' \<longrightarrow> dict_get resp k = dict_get res k)"
proof -
  let ?h = "handle_exception (PyList errs) True"
  let ?resp = "dict_update res ?h"
  from errs have m: "map_of mem ''requestErrors'' = Some (PyList errs)"
    by (simp add: dict_get_def)
  from errs(2) have len: "0 < length errs" by simp
  have tr: "query_try mem = Inr (PyDict ?resp)"
    using m len res(1) by (simp add: query_try_def dict_get_default_def py_getitem_def)
  have ser: "json_serializable (PyDict ?resp)"
    using res(2) by (rule update_with_handler_serializable)
  have post: "TranQLQuery_post execute (PyDict body) = Inr (PyDict ?resp)"
    using exec tr ser by (simp add: TranQLQuery_post_def json_dump_def)
  have st: "dict_get ?resp ''status'' = Some (PyStr ''Warning'')"
    by (simp add: update_with_handler_get)
  have er: "dict_get ?resp ''errors'' = Some (PyList (errors_of ?h))"
    by (simp add: update_with_handler_get)
  have ms: "map (\<lambda>r. py_get r ''message'') (errors_of ?h) =
             map (\<lambda>x. Some (PyStr (py_str_exc x))) (error_leaves (PyList errs))"
    by (rule handle_exception_messages)
  have keep: "\<forall>k. k \<noteq> ''errors'' \<and> k \<noteq> ''status'' \<longrightarrow> dict_get ?resp k = dict_get res k"
    by (simp add: update_with_handler_get)
  from post st er ms keep show ?thesis by blast
qed

theorem query_warning_response_witness:
  "dict_get [(''result'', PyDict [(''knowledge_graph'', PyDict [(''nodes'', PyList [])])]),
             (''requestErrors'', PyList [PyExc (Exception ''timeout'')])] ''requestErrors''
     = Some (PyList [PyExc (Exception ''timeout'')])
   \<and> json_serializable (PyDict [(''knowledge_graph'', PyDict [(''nodes'', PyList [])])])
   \<and> (\<exists>resp ents.
         TranQLQuery_post
           (\<lambda>options query. Returns
              [(''result'', PyDict [(''knowledge_graph'', PyDict [(''nodes'', PyList [])])]),
               (''requestErrors'', PyList [PyExc (Exception ''timeout'')])])
           (PyDict [(''query'', PyStr ''select'')]) = Inr (PyDict resp)
       \<and> dict_get resp ''status'' = Some (PyStr ''Warning'')
       \<and> dict_get resp ''errors'' = Some (PyList ents)
       \<and> map (\<lambda>r. py_get r ''message'') ents = [Some (PyStr ''timeout'')]
       \<and> dict_get resp ''knowledge_graph'' = Some (PyDict [(''nodes'', PyList [])]))"
proof -
  let ?res = "[(''knowledge_graph'', PyDict [(''nodes'', PyList [])])]"
  let ?errs = "[PyExc (Exception ''timeout'')]"
  let ?mem = "[(''result'', PyDict ?res), (''requestErrors'', PyList ?errs)]"
  let ?execute = "\<lambda>(options :: pydict) (query :: pyval). Returns ?mem"
  have h1: "?execute [(''dynamic_id_resolution'',
                dict_get_default [(''query'', PyStr ''select'')] ''dynamicIdResolution'' (PyBool False))]
              (dict_get_default [(''query'', PyStr ''select'')] ''query'' (PyStr [])) = Returns ?mem"
    by simp
  have h2: "dict_get ?mem ''requestErrors'' = Some (PyList ?errs)"
    by (simp add: dict_get_def)
  have h3: "?errs \<noteq> []" by simp
  have h4: "dict_get_default ?mem ''result'' (PyDict []) = PyDict ?res"
    by (simp add: dict_get_default_def)
  have h5: "json_serializable (PyDict ?res)" by simp
  from query_warning_response [of ?execute "[(''query'', PyStr ''select'')]", OF h1 h2 h3 h4 h5]
  obtain resp ents where r:
    "TranQLQuery_post ?execute (PyDict [(''query'', PyStr ''select'')]) = Inr (PyDict resp)"
    "dict_get resp ''status'' = Some (PyStr ''Warning'')"
    "dict_get resp ''errors'' = Some (PyList ents)"
    "map (\<lambda>r. py_get r ''message'') ents =
       map (\<lambda>x. Some (PyStr (py_str_exc x))) (error_leaves (PyList ?errs))"
    "\<forall>k. k \<noteq> ''errors'' \<and> k \<noteq> ''status'' \<longrightarrow> dict_get resp k = dict_get ?res k"
    by blast
  from r(4) have m: "map (\<lambda>r. py_get r ''message'') ents = [Some (PyStr ''timeout'')]"
    by simp
  from r(5) have k: "dict_get resp ''knowledge_graph'' = Some (PyDict [(''nodes'', PyList [])])"
    by (simp add: dict_get_def)
  have "\<exists>resp ents.
         TranQLQuery_post ?execute (PyDict [(''query'', PyStr ''select'')]) = Inr (PyDict resp)
       \<and> dict_get resp ''status'' = Some (PyStr ''Warning'')
       \<and> dict_get resp ''errors'' = Some (PyList ents)
       \<and> map (\<lambda>r. py_get r ''message'') ents = [Some (PyStr ''timeout'')]
       \<and> dict_get resp ''knowledge_graph'' = Some (PyDict [(''nodes'', PyList [])])"
    using r(1,2,3) m k by (intro exI [of _ resp] exI [of _ ents] conjI)
  with h2 h5 show ?thesis by (intro conjI)
qed

text \<open>
  C2. Whenever the interpreter's execute raises an exception e while the context holds
  the list errs of request errors (or none, which counts as the empty list), the query
  endpoint returns exactly the two keys errors and status, so no result graph, with
  status Error and a non-empty errors list: first the entry with the message of e, then
  one entry per accumulated request error, in order.
\<close>

theorem query_error_response:
  assumes exec: "execute [(''dynamic_id_resolution'',
                     dict_get_default body ''dynamicIdResolution'' (PyBool False))]
                   (dict_get_default body ''query'' (PyStr [])) = Raises e mem"
    and errs: "dict_get_default mem ''requestErrors'' (PyList []) = PyList errs"
  shows "\<exists>ents.
           TranQLQuery_post execute (PyDict body) =
             Inr (PyDict [(''errors'', PyList ents), (''status'', PyStr ''Error'')])
         \<and> ents \<noteq> []
         \<and> map (\<lambda>r. py_get r ''message'') ents =
             Some (PyStr (py_str_exc e)) #
             map (\<lambda>x. Some (PyStr (py_str_exc x))) (error_leaves (PyList errs))"
proof -
  let ?h = "handle_exception (PyList (PyExc e # errs)) False"
  have exc: "query_except e mem = Inr (PyDict ?h)"
    using errs(1) by (simp add: query_except_def)
  have shape: "?h = [(''errors'', PyList (errors_of ?h)), (''status'', PyStr ''Error'')]"
    using handle_exception_shape [of "PyList (PyExc e # errs)" False] by simp
  have post: "TranQLQuery_post execute (PyDict body) = Inr (PyDict ?h)"
    using exec exc handler_response_serializable [of "PyList (PyExc e # errs)" False]
    by (simp add: TranQLQuery_post_def json_dump_def)
  have ms: "map (\<lambda>r. py_get r ''message'') (errors_of ?h) =
             Some (PyStr (py_str_exc e)) #
             map (\<lambda>x. Some (PyStr (py_str_exc x))) (error_leaves (PyList errs))"
    by (subst handle_exception_messages) simp
  then have ne: "errors_of ?h \<noteq> []" by auto
  from post shape ms ne show ?thesis by metis
qed

theorem query_error_response_witness:
  "dict_get_default [(''requestErrors'', PyList [PyStr ''no route''])] ''requestErrors'' (PyList [])
     = PyList [PyStr ''no route'']
   \<and> (\<exists>ents.
         TranQLQuery_post
           (\<lambda>options query. Raises (TranQLException ''bad plan''
                \<lparr>details_truth = False, details_str = ''None''\<rparr>)
              [(''requestErrors'', PyList [PyStr ''no route''])])
           (PyDict []) = Inr (PyDict [(''errors'', PyList ents), (''status'', PyStr ''Error'')])
       \<and> ents \<noteq> []
       \<and> map (\<lambda>r. py_get r ''message'') ents = [Some (PyStr ''bad plan''), Some (PyStr ''no route'')])"
proof -
  let ?mem = "[(''requestErrors'', PyList [PyStr ''no route''])]"
  let ?e = "TranQLException ''bad plan'' \<lparr>details_truth = False, details_str = ''None''\<rparr>"
  let ?execute = "\<lambda>(options :: pydict) (query :: pyval). Raises ?e ?mem"
  have h1: "?execute [(''dynamic_id_resolution'',
                dict_get_default [] ''dynamicIdResolution'' (PyBool False))]
              (dict_get_default [] ''query'' (PyStr [])) = Raises ?e ?mem"
    by simp
  have h2: "dict_get_default ?mem ''requestErrors'' (PyList []) = PyList [PyStr ''no route'']"
    by (simp add: dict_get_default_def)
  from query_error_response [of ?execute "[]", OF h1 h2] h2 show ?thesis
    by simp
qed

text \<open>
  C4. For every finished schema build, with schema message and list of load errors, the
  schema endpoint returns a response whose key schema holds the schema message. With no
  load errors this is the whole response; with load errors the response carries in
  addition the status Warning and an errors list with one entry per load error, in order.
  The schema is there in both cases.
\<close>

theorem schema_response_keeps_schema:
  "\<exists>resp. SchemaGraph_get schema_message (PyList loadErrors) = Inr (PyDict resp)
     \<and> dict_get resp ''schema'' = Some schema_message
     \<and> (loadErrors = [] \<longrightarrow> resp = [(''schema'', schema_message)])
     \<and> (loadErrors \<noteq> [] \<longrightarrow>
          dict_get resp ''status'' = Some (PyStr ''Warning'')
          \<and> (\<exists>ents. dict_get resp ''errors'' = Some (PyList ents)
                \<and> map (\<lambda>r. py_get r ''message'') ents =
                    map (\<lambda>x. Some (PyStr (py_str_exc x))) (error_leaves (PyList loadErrors))))"
proof (cases "loadErrors = []")
  case True
  then show ?thesis by (simp add: SchemaGraph_get_def dict_get_def)
next
  case False
  let ?h = "handle_exception (PyList loadErrors) True"
  let ?resp = "dict_update [(''schema'', schema_message)] ?h"
  from False have "SchemaGraph_get schema_message (PyList loadErrors) = Inr (PyDict ?resp)"
    by (simp add: SchemaGraph_get_def)
  moreover have "dict_get ?resp ''schema'' = Some schema_message"
    by (simp only: update_with_handler_get) (simp add: dict_get_def)
  moreover have "dict_get ?resp ''status'' = Some (PyStr ''Warning'')"
    by (simp add: update_with_handler_get)
  moreover have "dict_get ?resp ''errors'' = Some (PyList (errors_of ?h))"
    by (simp add: update_with_handler_get)
  moreover have "map (\<lambda>r. py_get r ''message'') (errors_of ?h) =
             map (\<lambda>x. Some (PyStr (py_str_exc x))) (error_leaves (PyList loadErrors))"
    by (rule handle_exception_messages)
  ultimately show ?thesis using False by blast
qed

theorem schema_response_keeps_schema_witness:
  "\<exists>resp. SchemaGraph_get (PyDict [(''knowledge_graph'', PyDict [])])
             (PyList [PyExc (Exception ''source 2 timed out'')]) = Inr (PyDict resp)
     \<and> dict_get resp ''schema'' = Some (PyDict [(''knowledge_graph'', PyDict [])])
     \<and> dict_get resp ''status'' = Some (PyStr ''Warning'')
     \<and> (\<exists>ents. dict_get resp ''errors'' = Some (PyList ents)
           \<and> map (\<lambda>r. py_get r ''message'') ents = [Some (PyStr ''source 2 timed out'')])"
  using schema_response_keeps_schema [of "PyDict [(''knowledge_graph'', PyDict [])]"
      "[PyExc (Exception ''source 2 timed out'')]"]
  by simp

text \<open>
  C6. For a concept model that was built, the concept-name endpoint returns a list of
  strings that is sorted in ascending order and has exactly the keys of the model's
  by_name table, each as often as the table has it (once, for a Python dictionary).
\<close>

theorem concept_names_sorted_keys:
  "\<exists>names. ModelConceptsQuery_post (Inr concept_model) = PyList (map PyStr names)
     \<and> sorted names
     \<and> mset names = mset (dict_keys (by_name concept_model))
     \<and> set names = set (dict_keys (by_name concept_model))"
  by (rule exI [of _ "sort (dict_keys (by_name concept_model))"])
     (simp add: ModelConceptsQuery_post_def)

text \<open>
  C7. For a concept model that was built, the relation-name endpoint returns a list of
  strings that is sorted in ascending order and has exactly the keys of the model's
  relations_by_name table; this table is a field of its own, and the result does not
  depend on the concept table by_name.
\<close>

theorem relation_names_sorted_keys:
  "(\<exists>names. ModelRelationsQuery_post (Inr concept_model) = PyList (map PyStr names)
     \<and> sorted names
     \<and> mset names = mset (dict_keys (relations_by_name concept_model))
     \<and> set names = set (dict_keys (relations_by_name concept_model)))
   \<and> ModelRelationsQuery_post (Inr (concept_model\<lparr>by_name := concepts\<rparr>)) =
       ModelRelationsQuery_post (Inr concept_model)"
proof
  show "\<exists>names. ModelRelationsQuery_post (Inr concept_model) = PyList (map PyStr names)
     \<and> sorted names
     \<and> mset names = mset (dict_keys (relations_by_name concept_model))
     \<and> set names = set (dict_keys (relations_by_name concept_model))"
    by (rule exI [of _ "sort (dict_keys (relations_by_name concept_model))"])
       (simp add: ModelRelationsQuery_post_def)
next
  show "ModelRelationsQuery_post (Inr (concept_model\<lparr>by_name := concepts\<rparr>)) =
       ModelRelationsQuery_post (Inr concept_model)"
    by (simp add: ModelRelationsQuery_post_def)
qed

text \<open>
  C10. When the body of a merge-messages request has no key messages, the endpoint calls
  merge_results on the empty list; when it has no key interpreter_options, it constructs
  the interpreter with the empty dictionary; for every dictionary body the endpoint's own
  code raises nothing and returns what merge_results returns.
\<close>

theorem merge_messages_defaults:
  "(dict_get body ''messages'' = None \<longrightarrow>
      MergeMessages_post TranQL merge_results (PyDict body) =
        Inr (merge_results (PyList [])
               (TranQL (dict_get_default body ''interpreter_options'' (PyDict [])))))
   \<and> (dict_get body ''interpreter_options'' = None \<longrightarrow>
      MergeMessages_post TranQL merge_results (PyDict body) =
        Inr (merge_results (dict_get_default body ''messages'' (PyList []))
               (TranQL (PyDict []))))
   \<and> (\<exists>r. MergeMessages_post TranQL merge_results (PyDict body) = Inr r)"
  by (simp add: MergeMessages_post_def dict_get_def dict_get_default_def)

theorem merge_messages_defaults_witness:
  "dict_get [] ''messages'' = None \<and> dict_get [] ''interpreter_options'' = None
   \<and> MergeMessages_post (\<lambda>options. options) (\<lambda>messages tranql. PyList [messages, tranql])
       (PyDict []) = Inr (PyList [PyList [], PyDict []])"
proof -
  have h: "dict_get [] ''messages'' = None" "dict_get [] ''interpreter_options'' = None"
    by (simp_all add: dict_get_def)
  from merge_messages_defaults [of "[]" "\<lambda>options. options"
      "\<lambda>messages tranql. PyList [messages, tranql]"] h
  show ?thesis by (simp add: dict_get_default_def)
qed

section \<open>The message merger: keyed deduplication\<close>

text \<open>
  Facts about \<open>merge_into\<close> when matching is equality of a key that combining keeps:
  the case of the edges, and of the nodes when merging is id-based.
\<close>

lemma merge_into_keys:
  assumes "\<And>y x. same y x = (key y = key x)" "\<And>y x. key (combine y x) = key y"
  shows "map key (merge_into same combine ys x) =
           (if key x \<in> set (map key ys) then map key ys else map key ys @ [key x])"
  using assms by (induction ys) auto

lemma merge_into_new:
  assumes "\<And>y x. same y x = (key y = key x)" "key x \<notin> key ` set ys"
  shows "merge_into same combine ys x = ys @ [x]"
  using assms by (induction ys) auto

lemma merge_into_distinct:
  assumes "\<And>y x. same y x = (key y = key x)" "\<And>y x. key (combine y x) = key y"
    and "distinct (map key ys)"
  shows "distinct (map key (merge_into same combine ys x))"
  using assms by (simp add: merge_into_keys [where key = key])

lemma foldl_merge_into_distinct:
  assumes "\<And>y x. same y x = (key y = key x)" "\<And>y x. key (combine y x) = key y"
    and "distinct (map key ys)"
  shows "distinct (map key (foldl (merge_into same combine) ys xs))"
  using assms(3)
proof (induction xs arbitrary: ys)
  case Nil
  then show ?case by simp
next
  case (Cons x xs)
  have "distinct (map key (merge_into same combine ys x))"
    using assms(1,2) Cons.prems by (rule merge_into_distinct)
  then show ?case using Cons.IH by simp
qed

lemma foldl_merge_into_key_set:
  assumes "\<And>y x. same y x = (key y = key x)" "\<And>y x. key (combine y x) = key y"
  shows "key ` set (foldl (merge_into same combine) ys xs) = key ` set ys \<union> key ` set xs"
proof (induction xs arbitrary: ys)
  case Nil
  then show ?case by simp
next
  case (Cons x xs)
  have "set (map key (merge_into same combine ys x)) = insert (key x) (key ` set ys)"
    using assms by (auto simp: merge_into_keys [where key = key])
  then have "key ` set (merge_into same combine ys x) = insert (key x) (key ` set ys)"
    by simp
  then show ?case using Cons.IH [of "merge_into same combine ys x"] by auto
qed

lemma foldl_merge_into_fresh:
  assumes "\<And>y x. same y x = (key y = key x)"
    and "distinct (map key (ys @ xs))"
  shows "foldl (merge_into same combine) ys xs = ys @ xs"
  using assms(2)
proof (induction xs arbitrary: ys)
  case Nil
  then show ?case by simp
next
  case (Cons x xs)
  from Cons.prems have new: "key x \<notin> key ` set ys" by auto
  have step: "merge_into same combine ys x = ys @ [x]"
    using assms(1) new by (rule merge_into_new)
  from Cons.prems have "distinct (map key ((ys @ [x]) @ xs))" by simp
  then have "foldl (merge_into same combine) (ys @ [x]) xs = (ys @ [x]) @ xs"
    by (rule Cons.IH)
  then show ?case using step by simp
qed


lemma gathered_Nil: "gathered key f [] k = {}"
  by (simp add: gathered_def)

lemma gathered_Cons:
  "gathered key f (z # zs) k = (if key z = k then f z else {}) \<union> gathered key f zs k"
  by (auto simp: gathered_def)

lemma gathered_append:
  "gathered key f (ys @ zs) k = gathered key f ys k \<union> gathered key f zs k"
  by (auto simp: gathered_def)

lemma gathered_cong_set: "set ys = set zs \<Longrightarrow> gathered key f ys = gathered key f zs"
  by (simp add: gathered_def fun_eq_iff)

lemma merge_into_gathered:
  assumes "\<And>y x. same y x = (key y = key x)" "\<And>y x. key (combine y x) = key y"
    and "\<And>y x. f (combine y x) = f y \<union> f x"
  shows "gathered key f (merge_into same combine ys x) k =
           gathered key f ys k \<union> (if key x = k then f x else {})"
  using assms by (induction ys) (auto simp: gathered_Cons gathered_Nil)

lemma foldl_merge_into_gathered:
  assumes "\<And>y x. same y x = (key y = key x)" "\<And>y x. key (combine y x) = key y"
    and "\<And>y x. f (combine y x) = f y \<union> f x"
  shows "gathered key f (foldl (merge_into same combine) ys xs) k = gathered key f (ys @ xs) k"
proof (induction xs arbitrary: ys)
  case Nil
  then show ?case by simp
next
  case (Cons x xs)
  have "gathered key f (foldl (merge_into same combine) (merge_into same combine ys x) xs) k =
        gathered key f (merge_into same combine ys x @ xs) k"
    by (rule Cons.IH)
  also have "\<dots> = gathered key f (ys @ x # xs) k"
    using merge_into_gathered [of same key combine f ys x k, OF assms]
    by (auto simp: gathered_append gathered_Cons)
  finally show ?case by simp
qed

lemma gathered_distinct:
  assumes "distinct (map key zs)" "z \<in> set zs"
  shows "gathered key f zs (key z) = f z"
proof -
  from assms have "{y \<in> set zs. key y = key z} = {z}"
    by (auto simp: distinct_map inj_on_def)
  then show ?thesis by (simp add: gathered_def)
qed

section \<open>The message merger with id-based deduplication\<close>

lemma same_entity_id: "same_entity False y x = (node_id y = node_id x)"
  by (simp add: same_entity_def)

lemma combine_nodes_id: "node_id (combine_nodes y x) = node_id y"
  by (simp add: combine_nodes_def)

lemma combine_nodes_fields:
  "node_types (combine_nodes y x) = node_types y \<union> node_types x"
  "node_names (combine_nodes y x) = node_names y \<union> node_names x"
  "dom (node_attrs (combine_nodes y x)) = dom (node_attrs y) \<union> dom (node_attrs x)"
  by (auto simp: combine_nodes_def)

lemma same_edge_key: "same_edge d e = (edge_key d = edge_key e)"
  by (simp add: same_edge_def)

lemma combine_edges_key: "edge_key (combine_edges d e) = edge_key d"
  by (simp add: combine_edges_def edge_key_def)

lemma combine_edges_attrs:
  "dom (edge_attrs (combine_edges d e)) = dom (edge_attrs d) \<union> dom (edge_attrs e)"
  by (auto simp: combine_edges_def)

lemma absorb_node_id:
  "absorb_node False (seen, id) n = (merge_into (same_entity False) combine_nodes seen n, id)"
proof (cases "find (\<lambda>m. same_entity False m n) seen")
  case None
  then show ?thesis by (simp add: absorb_node_def)
next
  case (Some m)
  then have "node_id m = node_id n"
    by (auto simp: find_Some_iff same_entity_id)
  then have "id(node_id n := node_id m) = id" by auto
  with Some show ?thesis by (simp add: absorb_node_def)
qed

lemma foldl_absorb_node_id:
  "foldl (absorb_node False) (seen, id) xs =
     (foldl (merge_into (same_entity False) combine_nodes) seen xs, id)"
  by (induction xs arbitrary: seen) (simp_all add: absorb_node_id)

lemma remap_edge_id: "remap_edge id = (\<lambda>e. e)"
  by (simp add: remap_edge_def fun_eq_iff)

lemma merge_id_based:
  assumes "\<not> name_based_merging options"
  shows "merge options messages =
     \<lparr>nodes = foldl (merge_into (same_entity False) combine_nodes) []
                (concat (map nodes messages)),
      edges = foldl (merge_into same_edge combine_edges) []
                (concat (map edges messages))\<rparr>"
  using assms by (simp add: merge_def foldl_absorb_node_id remap_edge_id)

lemma merge_id_based_nodes:
  "\<not> name_based_merging options \<Longrightarrow>
     nodes (merge options messages) =
       foldl (merge_into (same_entity False) combine_nodes) [] (concat (map nodes messages))"
  by (simp add: merge_id_based)

lemma merge_id_based_edges:
  "\<not> name_based_merging options \<Longrightarrow>
     edges (merge options messages) =
       foldl (merge_into same_edge combine_edges) [] (concat (map edges messages))"
  by (simp add: merge_id_based)

lemma merge_deduplicated:
  assumes "\<not> name_based_merging options"
  shows "deduplicated (merge options messages)"
proof -
  have "distinct (map node_id (foldl (merge_into (same_entity False) combine_nodes) []
          (concat (map nodes messages))))"
    by (rule foldl_merge_into_distinct [of "same_entity False" node_id combine_nodes,
          OF same_entity_id combine_nodes_id]) simp
  moreover have "distinct (map edge_key (foldl (merge_into same_edge combine_edges) []
          (concat (map edges messages))))"
    by (rule foldl_merge_into_distinct [of same_edge edge_key combine_edges,
          OF same_edge_key combine_edges_key]) simp
  ultimately show ?thesis
    using assms by (simp add: deduplicated_def merge_id_based)
qed

lemma merge_single_deduplicated:
  assumes "\<not> name_based_merging options" "deduplicated g"
  shows "merge options [g] = g"
proof -
  have "foldl (merge_into (same_entity False) combine_nodes) [] (nodes g) = nodes g"
    using foldl_merge_into_fresh [of "same_entity False" node_id "[]" "nodes g" combine_nodes,
        OF same_entity_id] assms(2)
    by (simp add: deduplicated_def)
  moreover have "foldl (merge_into same_edge combine_edges) [] (edges g) = edges g"
    using foldl_merge_into_fresh [of same_edge edge_key "[]" "edges g" combine_edges,
        OF same_edge_key] assms(2)
    by (simp add: deduplicated_def)
  ultimately show ?thesis using assms(1) by (simp add: merge_id_based)
qed

lemma merge_merged_first:
  assumes "\<not> name_based_merging options"
  shows "merge options (merge options ms # rest) = merge options (ms @ rest)"
proof -
  let ?dn = "foldl (merge_into (same_entity False) combine_nodes)"
  let ?de = "foldl (merge_into same_edge combine_edges)"
  have g: "deduplicated (merge options ms)" using assms by (rule merge_deduplicated)
  have n0: "?dn [] (nodes (merge options ms)) = nodes (merge options ms)"
    using foldl_merge_into_fresh [of "same_entity False" node_id "[]"
        "nodes (merge options ms)" combine_nodes, OF same_entity_id] g
    by (simp add: deduplicated_def)
  have e0: "?de [] (edges (merge options ms)) = edges (merge options ms)"
    using foldl_merge_into_fresh [of same_edge edge_key "[]"
        "edges (merge options ms)" combine_edges, OF same_edge_key] g
    by (simp add: deduplicated_def)
  have n: "?dn [] (concat (map nodes (merge options ms # rest))) =
           ?dn [] (concat (map nodes (ms @ rest)))"
    using n0 assms by (simp add: merge_id_based_nodes)
  have e: "?de [] (concat (map edges (merge options ms # rest))) =
           ?de [] (concat (map edges (ms @ rest)))"
    using e0 assms by (simp add: merge_id_based_edges)
  have "merge options (merge options ms # rest) =
      \<lparr>nodes = ?dn [] (concat (map nodes (merge options ms # rest))),
       edges = ?de [] (concat (map edges (merge options ms # rest)))\<rparr>"
    using assms by (rule merge_id_based)
  also have "\<dots> = \<lparr>nodes = ?dn [] (concat (map nodes (ms @ rest))),
                   edges = ?de [] (concat (map edges (ms @ rest)))\<rparr>"
    by (simp only: n e)
  also have "\<dots> = merge options (ms @ rest)"
    using assms by (rule merge_id_based [symmetric])
  finally show ?thesis .
qed

lemma deduplicated_node_views:
  "node_view ` set (foldl (merge_into (same_entity False) combine_nodes) [] xs) =
     (\<lambda>k. (k, gathered node_id node_types xs k, gathered node_id node_names xs k,
              gathered node_id (\<lambda>n. dom (node_attrs n)) xs k)) ` node_id ` set xs"
proof -
  let ?r = "foldl (merge_into (same_entity False) combine_nodes) [] xs"
  let ?G = "\<lambda>k. (k, gathered node_id node_types xs k, gathered node_id node_names xs k,
              gathered node_id (\<lambda>n. dom (node_attrs n)) xs k)"
  have d: "distinct (map node_id ?r)"
    by (rule foldl_merge_into_distinct [of "same_entity False" node_id combine_nodes,
          OF same_entity_id combine_nodes_id]) simp
  have k: "node_id ` set ?r = node_id ` set xs"
    using foldl_merge_into_key_set [of "same_entity False" node_id combine_nodes "[]" xs,
        OF same_entity_id combine_nodes_id] by simp
  have g: "gathered node_id f ?r k = gathered node_id f xs k"
    if "\<And>y x. f (combine_nodes y x) = f y \<union> f x" for f :: "node \<Rightarrow> string set" and k
    using foldl_merge_into_gathered [of "same_entity False" node_id combine_nodes f "[]" xs k,
        OF same_entity_id combine_nodes_id that] by simp
  have v: "node_view z = ?G (node_id z)" if "z \<in> set ?r" for z
  proof -
    have "node_types z = gathered node_id node_types xs (node_id z)"
      using gathered_distinct [OF d that, of node_types]
        g [of node_types "node_id z", OF combine_nodes_fields(1)] by simp
    moreover have "node_names z = gathered node_id node_names xs (node_id z)"
      using gathered_distinct [OF d that, of node_names]
        g [of node_names "node_id z", OF combine_nodes_fields(2)] by simp
    moreover have "dom (node_attrs z) =
        gathered node_id (\<lambda>n. dom (node_attrs n)) xs (node_id z)"
      using gathered_distinct [OF d that, of "\<lambda>n. dom (node_attrs n)"]
        g [of "\<lambda>n. dom (node_attrs n)" "node_id z", OF combine_nodes_fields(3)] by simp
    ultimately show ?thesis by (simp add: node_view_def)
  qed
  have "node_view ` set ?r = (\<lambda>z. ?G (node_id z)) ` set ?r"
    using v by (intro image_cong) auto
  also have "\<dots> = ?G ` node_id ` set ?r" by (simp add: image_image)
  finally show ?thesis using k by simp
qed

lemma deduplicated_edge_views:
  "edge_view ` set (foldl (merge_into same_edge combine_edges) [] xs) =
     (\<lambda>k. (k, gathered edge_key (\<lambda>e. dom (edge_attrs e)) xs k)) ` edge_key ` set xs"
proof -
  let ?r = "foldl (merge_into same_edge combine_edges) [] xs"
  let ?G = "\<lambda>k. (k, gathered edge_key (\<lambda>e. dom (edge_attrs e)) xs k)"
  have d: "distinct (map edge_key ?r)"
    by (rule foldl_merge_into_distinct [of same_edge edge_key combine_edges,
          OF same_edge_key combine_edges_key]) simp
  have k: "edge_key ` set ?r = edge_key ` set xs"
    using foldl_merge_into_key_set [of same_edge edge_key combine_edges "[]" xs,
        OF same_edge_key combine_edges_key] by simp
  have g: "gathered edge_key (\<lambda>e. dom (edge_attrs e)) ?r k =
           gathered edge_key (\<lambda>e. dom (edge_attrs e)) xs k" for k
    using foldl_merge_into_gathered [of same_edge edge_key combine_edges
        "\<lambda>e. dom (edge_attrs e)" "[]" xs k, OF same_edge_key combine_edges_key combine_edges_attrs]
    by simp
  have v: "edge_view z = ?G (edge_key z)" if "z \<in> set ?r" for z
    using gathered_distinct [OF d that, of "\<lambda>e. dom (edge_attrs e)"] g
    by (simp add: edge_view_def)
  have "edge_view ` set ?r = (\<lambda>z. ?G (edge_key z)) ` set ?r"
    using v by (intro image_cong) auto
  also have "\<dots> = ?G ` edge_key ` set ?r" by (simp add: image_image)
  finally show ?thesis using k by simp
qed

lemma merge_same_graph:
  assumes "\<not> name_based_merging options" "set ms = set ms'"
  shows "same_graph (merge options ms) (merge options ms')"
proof -
  from assms(2) have n: "set (concat (map nodes ms)) = set (concat (map nodes ms'))"
    and e: "set (concat (map edges ms)) = set (concat (map edges ms'))"
    by simp_all
  show ?thesis
    by (simp only: same_graph_def merge_id_based_nodes [OF assms(1)]
        merge_id_based_edges [OF assms(1)] deduplicated_node_views deduplicated_edge_views
        gathered_cong_set [OF n] gathered_cong_set [OF e] n e)
qed

section \<open>Claims about the message merger\<close>

text \<open>
  C5, as the spec states it: for all graph messages A, B, C the merge is commutative as
  node and edge sets, satisfies merge([merge([A,B]),C]) = merge([A,B,C]), and
  merge([A]) = A. Against the merger of section 4.4 this fails twice. A message with
  unique node ids and unique edge ids may hold two edges with the same source, target and
  type; the merger deduplicates them, so merge([A]) has one edge where A has two. And with
  name_based_merging set, two nodes with the same name and different ids merge into a
  node with the first-seen id, so that merge([A,B]) and merge([B,A]) have different nodes.
\<close>

theorem merge_laws_counterexample:
  "well_formed
     \<lparr>nodes = [\<lparr>node_id = ''n0'', node_types = {''chemical_substance''}, node_names = {},
                 node_attrs = Map.empty\<rparr>,
               \<lparr>node_id = ''n1'', node_types = {''gene''}, node_names = {},
                 node_attrs = Map.empty\<rparr>],
      edges = [\<lparr>edge_id = ''e0'', source_id = ''n0'', target_id = ''n1'',
                 edge_type = ''targets'', edge_attrs = Map.empty\<rparr>,
               \<lparr>edge_id = ''e1'', source_id = ''n0'', target_id = ''n1'',
                 edge_type = ''targets'', edge_attrs = Map.empty\<rparr>]\<rparr>
   \<and> map edge_id (edges (merge
       \<lparr>asynchronous = False, name_based_merging = False, resolve_names = False,
         dynamic_id_resolution = False\<rparr>
       [\<lparr>nodes = [\<lparr>node_id = ''n0'', node_types = {''chemical_substance''}, node_names = {},
                   node_attrs = Map.empty\<rparr>,
                 \<lparr>node_id = ''n1'', node_types = {''gene''}, node_names = {},
                   node_attrs = Map.empty\<rparr>],
        edges = [\<lparr>edge_id = ''e0'', source_id = ''n0'', target_id = ''n1'',
                   edge_type = ''targets'', edge_attrs = Map.empty\<rparr>,
                 \<lparr>edge_id = ''e1'', source_id = ''n0'', target_id = ''n1'',
                   edge_type = ''targets'', edge_attrs = Map.empty\<rparr>]\<rparr>])) = [''e0'']
   \<and> merge
       \<lparr>asynchronous = False, name_based_merging = False, resolve_names = False,
         dynamic_id_resolution = False\<rparr>
       [\<lparr>nodes = [\<lparr>node_id = ''n0'', node_types = {''chemical_substance''}, node_names = {},
                   node_attrs = Map.empty\<rparr>,
                 \<lparr>node_id = ''n1'', node_types = {''gene''}, node_names = {},
                   node_attrs = Map.empty\<rparr>],
        edges = [\<lparr>edge_id = ''e0'', source_id = ''n0'', target_id = ''n1'',
                   edge_type = ''targets'', edge_attrs = Map.empty\<rparr>,
                 \<lparr>edge_id = ''e1'', source_id = ''n0'', target_id = ''n1'',
                   edge_type = ''targets'', edge_attrs = Map.empty\<rparr>]\<rparr>]
     \<noteq> \<lparr>nodes = [\<lparr>node_id = ''n0'', node_types = {''chemical_substance''}, node_names = {},
                   node_attrs = Map.empty\<rparr>,
                 \<lparr>node_id = ''n1'', node_types = {''gene''}, node_names = {},
                   node_attrs = Map.empty\<rparr>],
        edges = [\<lparr>edge_id = ''e0'', source_id = ''n0'', target_id = ''n1'',
                   edge_type = ''targets'', edge_attrs = Map.empty\<rparr>,
                 \<lparr>edge_id = ''e1'', source_id = ''n0'', target_id = ''n1'',
                   edge_type = ''targets'', edge_attrs = Map.empty\<rparr>]\<rparr>
   \<and> map node_id (nodes (merge
       \<lparr>asynchronous = False, name_based_merging = True, resolve_names = False,
         dynamic_id_resolution = False\<rparr>
       [\<lparr>nodes = [\<lparr>node_id = ''n0'', node_types = {''gene''}, node_names = {''BRCA1''},
                   node_attrs = Map.empty\<rparr>], edges = []\<rparr>,
        \<lparr>nodes = [\<lparr>node_id = ''m0'', node_types = {''gene''}, node_names = {''brca1''},
                   node_attrs = Map.empty\<rparr>], edges = []\<rparr>])) = [''n0'']
   \<and> map node_id (nodes (merge
       \<lparr>asynchronous = False, name_based_merging = True, resolve_names = False,
         dynamic_id_resolution = False\<rparr>
       [\<lparr>nodes = [\<lparr>node_id = ''m0'', node_types = {''gene''}, node_names = {''brca1''},
                   node_attrs = Map.empty\<rparr>], edges = []\<rparr>,
        \<lparr>nodes = [\<lparr>node_id = ''n0'', node_types = {''gene''}, node_names = {''BRCA1''},
                   node_attrs = Map.empty\<rparr>], edges = []\<rparr>])) = [''m0'']
   \<and> \<not> same_graph
       (merge
         \<lparr>asynchronous = False, name_based_merging = True, resolve_names = False,
           dynamic_id_resolution = False\<rparr>
         [\<lparr>nodes = [\<lparr>node_id = ''n0'', node_types = {''gene''}, node_names = {''BRCA1''},
                     node_attrs = Map.empty\<rparr>], edges = []\<rparr>,
          \<lparr>nodes = [\<lparr>node_id = ''m0'', node_types = {''gene''}, node_names = {''brca1''},
                     node_attrs = Map.empty\<rparr>], edges = []\<rparr>])
       (merge
         \<lparr>asynchronous = False, name_based_merging = True, resolve_names = False,
           dynamic_id_resolution = False\<rparr>
         [\<lparr>nodes = [\<lparr>node_id = ''m0'', node_types = {''gene''}, node_names = {''brca1''},
                     node_attrs = Map.empty\<rparr>], edges = []\<rparr>,
          \<lparr>nodes = [\<lparr>node_id = ''n0'', node_types = {''gene''}, node_names = {''BRCA1''},
                     node_attrs = Map.empty\<rparr>], edges = []\<rparr>])"
  by (simp add: well_formed_def merge_def absorb_node_def same_entity_def combine_nodes_def
      same_edge_def edge_key_def combine_edges_def remap_edge_def lower_char_def
      same_graph_def node_view_def)

text \<open>
  C5, amended: with name_based_merging off, for all graph messages A, B, C,
  merge([A,B]) and merge([B,A]) are the same as node and edge sets (the same node ids with
  the same types, names and attribute names, the same edge keys with the same attribute
  names); merge([merge([A,B]),C]) = merge([A,B,C]); merge([merge([A,B])]) = merge([A,B]);
  and merge([A]) = A for every A whose node ids are pairwise distinct and whose edges
  have pairwise distinct (source, target, type) keys.
\<close>

theorem merge_laws_id_based:
  assumes "\<not> name_based_merging options"
  shows "same_graph (merge options [A, B]) (merge options [B, A])
       \<and> merge options [merge options [A, B], C] = merge options [A, B, C]
       \<and> merge options [merge options [A, B]] = merge options [A, B]
       \<and> (deduplicated A \<longrightarrow> merge options [A] = A)"
proof (intro conjI impI)
  have "set [A, B] = set [B, A]" by auto
  with assms show "same_graph (merge options [A, B]) (merge options [B, A])"
    by (rule merge_same_graph)
next
  show "merge options [merge options [A, B], C] = merge options [A, B, C]"
    using merge_merged_first [OF assms, of "[A, B]" "[C]"] by simp
next
  show "merge options [merge options [A, B]] = merge options [A, B]"
    using merge_merged_first [OF assms, of "[A, B]" "[]"] by simp
next
  assume "deduplicated A"
  with assms show "merge options [A] = A"
    by (rule merge_single_deduplicated)
qed

theorem merge_laws_id_based_witness:
  "\<not> name_based_merging
       \<lparr>asynchronous = False, name_based_merging = False, resolve_names = False,
         dynamic_id_resolution = False\<rparr>
   \<and> deduplicated
       \<lparr>nodes = [\<lparr>node_id = ''n0'', node_types = {''chemical_substance''}, node_names = {},
                   node_attrs = Map.empty\<rparr>,
                 \<lparr>node_id = ''n1'', node_types = {''gene''}, node_names = {},
                   node_attrs = Map.empty\<rparr>],
        edges = [\<lparr>edge_id = ''e0'', source_id = ''n0'', target_id = ''n1'',
                   edge_type = ''targets'', edge_attrs = Map.empty\<rparr>]\<rparr>
   \<and> merge
       \<lparr>asynchronous = False, name_based_merging = False, resolve_names = False,
         dynamic_id_resolution = False\<rparr>
       [\<lparr>nodes = [\<lparr>node_id = ''n0'', node_types = {''chemical_substance''}, node_names = {},
                   node_attrs = Map.empty\<rparr>,
                 \<lparr>node_id = ''n1'', node_types = {''gene''}, node_names = {},
                   node_attrs = Map.empty\<rparr>],
        edges = [\<lparr>edge_id = ''e0'', source_id = ''n0'', target_id = ''n1'',
                   edge_type = ''targets'', edge_attrs = Map.empty\<rparr>]\<rparr>]
     = \<lparr>nodes = [\<lparr>node_id = ''n0'', node_types = {''chemical_substance''}, node_names = {},
                   node_attrs = Map.empty\<rparr>,
                 \<lparr>node_id = ''n1'', node_types = {''gene''}, node_names = {},
                   node_attrs = Map.empty\<rparr>],
        edges = [\<lparr>edge_id = ''e0'', source_id = ''n0'', target_id = ''n1'',
                   edge_type = ''targets'', edge_attrs = Map.empty\<rparr>]\<rparr>
   \<and> same_graph
       (merge
         \<lparr>asynchronous = False, name_based_merging = False, resolve_names = False,
           dynamic_id_resolution = False\<rparr>
         [\<lparr>nodes = [\<lparr>node_id = ''n0'', node_types = {''chemical_substance''}, node_names = {},
                     node_attrs = Map.empty\<rparr>,
                   \<lparr>node_id = ''n1'', node_types = {''gene''}, node_names = {},
                     node_attrs = Map.empty\<rparr>],
          edges = [\<lparr>edge_id = ''e0'', source_id = ''n0'', target_id = ''n1'',
                     edge_type = ''targets'', edge_attrs = Map.empty\<rparr>]\<rparr>,
          \<lparr>nodes = [\<lparr>node_id = ''n1'', node_types = {''protein''}, node_names = {''BRCA1''},
                     node_attrs = Map.empty\<rparr>],
           edges = [\<lparr>edge_id = ''e0'', source_id = ''n0'', target_id = ''n1'',
                      edge_type = ''interacts_with'', edge_attrs = Map.empty\<rparr>]\<rparr>])
       (merge
         \<lparr>asynchronous = False, name_based_merging = False, resolve_names = False,
           dynamic_id_resolution = False\<rparr>
         [\<lparr>nodes = [\<lparr>node_id = ''n1'', node_types = {''protein''}, node_names = {''BRCA1''},
                     node_attrs = Map.empty\<rparr>],
           edges = [\<lparr>edge_id = ''e0'', source_id = ''n0'', target_id = ''n1'',
                      edge_type = ''interacts_with'', edge_attrs = Map.empty\<rparr>]\<rparr>,
          \<lparr>nodes = [\<lparr>node_id = ''n0'', node_types = {''chemical_substance''}, node_names = {},
                     node_attrs = Map.empty\<rparr>,
                   \<lparr>node_id = ''n1'', node_types = {''gene''}, node_names = {},
                     node_attrs = Map.empty\<rparr>],
          edges = [\<lparr>edge_id = ''e0'', source_id = ''n0'', target_id = ''n1'',
                     edge_type = ''targets'', edge_attrs = Map.empty\<rparr>]\<rparr>])
   \<and> map node_view (nodes (merge
         \<lparr>asynchronous = False, name_based_merging = False, resolve_names = False,
           dynamic_id_resolution = False\<rparr>
         [\<lparr>nodes = [\<lparr>node_id = ''n0'', node_types = {''chemical_substance''}, node_names = {},
                     node_attrs = Map.empty\<rparr>,
                   \<lparr>node_id = ''n1'', node_types = {''gene''}, node_names = {},
                     node_attrs = Map.empty\<rparr>],
          edges = [\<lparr>edge_id = ''e0'', source_id = ''n0'', target_id = ''n1'',
                     edge_type = ''targets'', edge_attrs = Map.empty\<rparr>]\<rparr>,
          \<lparr>nodes = [\<lparr>node_id = ''n1'', node_types = {''protein''}, node_names = {''BRCA1''},
                     node_attrs = Map.empty\<rparr>],
           edges = [\<lparr>edge_id = ''e0'', source_id = ''n0'', target_id = ''n1'',
                      edge_type = ''interacts_with'', edge_attrs = Map.empty\<rparr>]\<rparr>]))
     = [(''n0'', {''chemical_substance''}, {}, {}),
        (''n1'', {''gene'', ''protein''}, {''BRCA1''}, {})]"
proof -
  let ?options = "\<lparr>asynchronous = False, name_based_merging = False, resolve_names = False,
         dynamic_id_resolution = False\<rparr>"
  let ?A = "\<lparr>nodes = [\<lparr>node_id = ''n0'', node_types = {''chemical_substance''}, node_names = {},
                   node_attrs = Map.empty\<rparr>,
                 \<lparr>node_id = ''n1'', node_types = {''gene''}, node_names = {},
                   node_attrs = Map.empty\<rparr>],
        edges = [\<lparr>edge_id = ''e0'', source_id = ''n0'', target_id = ''n1'',
                   edge_type = ''targets'', edge_attrs = Map.empty\<rparr>]\<rparr>"
  let ?B = "\<lparr>nodes = [\<lparr>node_id = ''n1'', node_types = {''protein''}, node_names = {''BRCA1''},
                     node_attrs = Map.empty\<rparr>],
           edges = [\<lparr>edge_id = ''e0'', source_id = ''n0'', target_id = ''n1'',
                      edge_type = ''interacts_with'', edge_attrs = Map.empty\<rparr>]\<rparr>"
  have h: "\<not> name_based_merging ?options" by simp
  have d: "deduplicated ?A" by (simp add: deduplicated_def edge_key_def)
  have v: "map node_view (nodes (merge ?options [?A, ?B]))
     = [(''n0'', {''chemical_substance''}, {}, {}),
        (''n1'', {''gene'', ''protein''}, {''BRCA1''}, {})]"
    by (auto simp add: merge_def absorb_node_def same_entity_def combine_nodes_def
      same_edge_def edge_key_def combine_edges_def remap_edge_def node_view_def)
  from merge_laws_id_based [OF h, of ?A ?B ?A] d
  have "same_graph (merge ?options [?A, ?B]) (merge ?options [?B, ?A])"
    and "merge ?options [?A] = ?A"
    by blast+
  with h d v show ?thesis by (intro conjI)
qed

end
